theory Spec2Isabelle
  imports Complex_Main
begin

section \<open>JavaScript values and the page\<close>

text \<open>
  The client scripts (\<^verbatim>\<open>frontend/exam.js\<close>, \<^verbatim>\<open>frontend/enhanced_features.js\<close> and its
  second copy) read fields of parsed JSON and write them into the DOM.  A field is a
  JavaScript value; a field that is absent reads as \<^verbatim>\<open>undefined\<close>.
\<close>

datatype jsval = JUndefined | JNull | JBool bool | JNum real | JStr string

text \<open>
  ToBoolean: what \<^verbatim>\<open>!x\<close>, \<^verbatim>\<open>x || y\<close> and \<^verbatim>\<open>if (x)\<close> test.  \<^verbatim>\<open>NaN\<close> is not among the
  numbers: JSON has none.
\<close>

fun truthy :: "jsval \<Rightarrow> bool" where
  "truthy JUndefined = False"
| "truthy JNull = False"
| "truthy (JBool b) = b"
| "truthy (JNum x) = (x \<noteq> 0)"
| "truthy (JStr s) = (s \<noteq> [])"

text \<open>\<^verbatim>\<open>a || b\<close> is \<^verbatim>\<open>a\<close> when it is truthy and \<^verbatim>\<open>b\<close> otherwise.\<close>

definition js_or :: "jsval \<Rightarrow> jsval \<Rightarrow> jsval" where
  "js_or a b = (if truthy a then a else b)"

datatype http_method = GET | POST

type_synonym request = "http_method \<times> string"

text \<open>What a promise chain can throw or reject with.\<close>

datatype exn = NetworkError | SyntaxError | TypeError

text \<open>
  The outcome of one \<^verbatim>\<open>fetch\<close>: the request fails (the promise rejects), or a response
  arrives with its \<^verbatim>\<open>ok\<close> flag and a body; \<^verbatim>\<open>res.json()\<close> rejects on a body that is
  not JSON (\<open>None\<close>).  A body that parses is a JSON object.
\<close>

datatype 'a fetched = Failed | Response bool "'a option"

text \<open>
  An element the scripts append to \<^verbatim>\<open>document.body\<close>.  \<open>classes\<close> is the class list
  (\<^verbatim>\<open>className\<close> split at spaces), \<open>holes\<close> the values interpolated into its text or
  markup in template order (the literal markup is left out), and \<open>parts\<close> the
  descendants that are looked up by id, each with its interpolated values.
\<close>

record node =
  node_id :: string
  classes :: "string list"
  holes :: "jsval list"
  parts :: "(string \<times> jsval list) list"

text \<open>
  \<^verbatim>\<open>#examStatus\<close> with the \<^verbatim>\<open>span\<close> inside it (\<open>None\<close> when it has none), and an
  element with text and classes.  \<open>innerText\<close> keeps the value last assigned to
  \<^verbatim>\<open>innerText\<close>.
\<close>

record status_el =
  status_classes :: "string list"
  span :: "jsval option"

record text_el =
  innerText :: jsval
  el_classes :: "string list"

text \<open>
  The state the scripts share: the global \<^verbatim>\<open>examRunning\<close>, the requests issued so far,
  the values passed to \<^verbatim>\<open>console.error\<close>, the elements of the page that
  \<^verbatim>\<open>getElementById\<close> looks for (\<open>None\<close> when the page has none) and the children of
  \<^verbatim>\<open>document.body\<close> in document order.
\<close>

record page =
  examRunning :: bool
  requests :: "request list"
  console :: "exn list"
  examStatus :: "status_el option"
  scoreEl :: "text_el option"
  alertBox :: "text_el option"
  alertSection :: "string list option"
  alertTime :: "text_el option"
  body :: "node list"

text \<open>
  \<^verbatim>\<open>classList.add\<close> and \<^verbatim>\<open>classList.remove\<close>.  Both work on the element's token set
  (the classes in order, each once) and write it back.
\<close>

definition token_set :: "string list \<Rightarrow> string list" where
  "token_set cs = rev (remdups (rev cs))"

definition classList_add :: "string \<Rightarrow> string list \<Rightarrow> string list" where
  "classList_add c cs = (if c \<in> set cs then token_set cs else token_set cs @ [c])"

definition classList_remove :: "string \<Rightarrow> string list \<Rightarrow> string list" where
  "classList_remove c cs = filter (\<lambda>x. x \<noteq> c) (token_set cs)"

definition fetch :: "http_method \<Rightarrow> string \<Rightarrow> page \<Rightarrow> page" where
  "fetch m url s = s\<lparr>requests := requests s @ [(m, url)]\<rparr>"

definition console_error :: "exn \<Rightarrow> page \<Rightarrow> page" where
  "console_error e s = s\<lparr>console := console s @ [e]\<rparr>"

section \<open>exam.js\<close>

text \<open>
  \<^verbatim>\<open>showNotification(message, type = "info")\<close> appends a toast to the body.  The timer
  that removes it three seconds later is not part of the model; a toast has no id and
  no class that a selector of these scripts matches.
\<close>

definition notification :: "jsval \<Rightarrow> string \<Rightarrow> node" where
  "notification message type =
     \<lparr>node_id = [],
      classes = [''fixed'', ''top-4'', ''right-4'', ''p-4'', ''rounded-lg'', ''shadow-lg'',
                 ''z-50'', ''alert-slide'',
                 (if type = ''success'' then ''bg-green-500''
                  else if type = ''error'' then ''bg-red-500''
                  else ''bg-blue-500''),
                 ''text-white'', ''font-semibold''],
      holes = [message],
      parts = []\<rparr>"

definition showNotification :: "jsval \<Rightarrow> string \<Rightarrow> page \<Rightarrow> page" where
  "showNotification message type s = s\<lparr>body := body s @ [notification message type]\<rparr>"

definition colorClasses :: "(string \<times> string) list" where
  "colorClasses = [(''green'', ''bg-green-500''), (''red'', ''bg-red-500''),
                   (''gray'', ''bg-gray-500'')]"

text \<open>
  \<^verbatim>\<open>updateExamStatus(text, color)\<close>.  Without \<^verbatim>\<open>#examStatus\<close> it does nothing.  With
  it, the class is assigned first and the text goes to the span;
  \<^verbatim>\<open>statusEl.querySelector("span")\<close> is \<^verbatim>\<open>null\<close> when there is no span and the
  assignment throws, after the class has changed.  The result is what was thrown, if
  anything, and the state reached.  The scripts pass the colours \<^verbatim>\<open>green\<close> and \<^verbatim>\<open>red\<close>
  only; a name that an object inherits (such as \<^verbatim>\<open>toString\<close>) is not looked up here.
\<close>

definition updateExamStatus :: "string \<Rightarrow> string \<Rightarrow> page \<Rightarrow> exn option \<times> page" where
  "updateExamStatus txt color s =
     (case examStatus s of
        None \<Rightarrow> (None, s)
      | Some el \<Rightarrow>
          let c = (case map_of colorClasses color of
                     Some c \<Rightarrow> c
                   | None \<Rightarrow> ''bg-gray-500'');
              el1 = el\<lparr>status_classes := [c, ''bg-opacity-80'', ''rounded-lg'', ''px-4'', ''py-2'']\<rparr>
          in (case span el1 of
                None \<Rightarrow> (Some TypeError, s\<lparr>examStatus := Some el1\<rparr>)
              | Some _ \<Rightarrow> (None, s\<lparr>examStatus := Some (el1\<lparr>span := Some (JStr txt)\<rparr>)\<rparr>)))"

text \<open>\<^verbatim>\<open>startExam()\<close> issues the request and returns; the handlers run when it settles.\<close>

definition startExam :: "page \<Rightarrow> page" where
  "startExam s = fetch GET ''http://127.0.0.1:5000/start_exam'' s"

definition startExam_catch :: "exn \<Rightarrow> page \<Rightarrow> page" where
  "startExam_catch err s =
     console_error err (showNotification (JStr ''Backend not reachable'') ''error'' s)"

text \<open>
  The \<^verbatim>\<open>.then\<close> handler.  On an ok response \<^verbatim>\<open>examRunning\<close> is set before
  \<^verbatim>\<open>updateExamStatus\<close> runs; when that throws, the rest of the handler is skipped
  and the \<^verbatim>\<open>.catch\<close> handler runs on the state reached so far.
\<close>

definition startExam_then :: "bool \<Rightarrow> page \<Rightarrow> page" where
  "startExam_then ok s =
     (if ok then
        (case updateExamStatus ''Exam Running'' ''green'' (s\<lparr>examRunning := True\<rparr>) of
           (None, s2) \<Rightarrow> showNotification (JStr ''Exam started successfully'') ''success'' s2
         | (Some e, s2) \<Rightarrow> startExam_catch e s2)
      else showNotification (JStr ''Failed to start exam'') ''error'' s)"

definition startExam_settled :: "'a fetched \<Rightarrow> page \<Rightarrow> page" where
  "startExam_settled r s =
     (case r of
        Failed \<Rightarrow> startExam_catch NetworkError s
      | Response ok _ \<Rightarrow> startExam_then ok s)"

text \<open>\<^verbatim>\<open>stopExam()\<close>: the guard on \<^verbatim>\<open>examRunning\<close>, then the request.\<close>

definition stopExam :: "page \<Rightarrow> page" where
  "stopExam s =
     (if \<not> examRunning s then
        showNotification (JStr ''Cannot stop exam - exam is not started yet!'') ''error'' s
      else fetch GET ''http://127.0.0.1:5000/stop_exam'' s)"

text \<open>
  Its \<^verbatim>\<open>.then\<close> handler does not look at the response; the \<^verbatim>\<open>.catch\<close> handler only
  logs.
\<close>

definition stopExam_settled :: "'a fetched \<Rightarrow> page \<Rightarrow> page" where
  "stopExam_settled r s =
     (case r of
        Failed \<Rightarrow> console_error NetworkError s
      | Response _ _ \<Rightarrow>
          (case updateExamStatus ''Exam Stopped'' ''red'' (s\<lparr>examRunning := False\<rparr>) of
             (None, s2) \<Rightarrow> showNotification (JStr ''Exam stopped'') ''info'' s2
           | (Some e, s2) \<Rightarrow> console_error e s2))"

text \<open>
  The score poll (every two seconds).  \<^verbatim>\<open>data.score\<close> is a number, as the endpoint
  documents it.  \<open>parseInt\<close> is the JavaScript builtin applied to the element's text,
  \<open>None\<close> for \<^verbatim>\<open>NaN\<close>; it only decides whether \<^verbatim>\<open>pulse-animation\<close> is added, and
  \<^verbatim>\<open>NaN !== x\<close> holds for every \<^verbatim>\<open>x\<close>.  The timer that removes the animation class a
  second later is not part of the model.
\<close>

definition suspicion_score_poll :: "page \<Rightarrow> page" where
  "suspicion_score_poll s = fetch GET ''http://127.0.0.1:5000/suspicion_score'' s"

definition suspicion_score_settled ::
  "(jsval \<Rightarrow> real option) \<Rightarrow> real fetched \<Rightarrow> page \<Rightarrow> page" where
  "suspicion_score_settled parseInt r s =
     (case r of
        Failed \<Rightarrow> console_error NetworkError s
      | Response _ None \<Rightarrow> console_error SyntaxError s
      | Response _ (Some newScore) \<Rightarrow>
          (case scoreEl s of
             None \<Rightarrow> s
           | Some el \<Rightarrow>
               let currentScore = parseInt (innerText el);
                   el1 = (if currentScore \<noteq> Some newScore
                          then el\<lparr>el_classes := classList_add ''pulse-animation'' (el_classes el)\<rparr>
                          else el);
                   el2 = el1\<lparr>innerText := JNum newScore\<rparr>;
                   el3 = (if newScore \<ge> 50
                          then el2\<lparr>el_classes := [''text-2xl'', ''font-bold'', ''text-red-400'']\<rparr>
                          else if newScore \<ge> 25
                          then el2\<lparr>el_classes := [''text-2xl'', ''font-bold'', ''text-yellow-400'']\<rparr>
                          else el2\<lparr>el_classes := [''text-2xl'', ''font-bold'', ''text-white'']\<rparr>)
               in s\<lparr>scoreEl := Some el3\<rparr>))"

text \<open>
  The alert poll (every 1.5 seconds).  The body is a JSON object; a field it does not
  have is \<open>JUndefined\<close>.
\<close>

record alert_data =
  message :: jsval
  alert :: jsval
  level :: jsval
  time :: jsval

definition latest_alert_poll :: "page \<Rightarrow> page" where
  "latest_alert_poll s = fetch GET ''http://127.0.0.1:5000/latest_alert'' s"

definition latest_alert_settled :: "alert_data fetched \<Rightarrow> page \<Rightarrow> page" where
  "latest_alert_settled r s =
     (case r of
        Failed \<Rightarrow> console_error NetworkError s
      | Response _ None \<Rightarrow> console_error SyntaxError s
      | Response _ (Some data) \<Rightarrow>
          (case (alertBox s, alertSection s) of
             (Some box, Some sec) \<Rightarrow>
               let msg = js_or (js_or (message data) (alert data)) (JStr []);
                   lvl = js_or (level data) (JStr []);
                   tm = js_or (time data) (JStr [])
               in if \<not> truthy msg
                  then s\<lparr>alertSection := Some (classList_add ''hidden'' sec)\<rparr>
                  else
                    let s1 = s\<lparr>alertSection :=
                                 Some (classList_add ''alert-slide'' (classList_remove ''hidden'' sec)),
                               alertBox := Some (box\<lparr>innerText := msg\<rparr>)\<rparr>
                    in (case alertTime s1 of
                          None \<Rightarrow> s1
                        | Some t \<Rightarrow> s1\<lparr>alertTime := Some (t\<lparr>innerText := tm\<rparr>)\<rparr>)
           | _ \<Rightarrow> s))"

text \<open>
  The \<^verbatim>\<open>visibilitychange\<close> listener; \<open>hidden\<close> is \<^verbatim>\<open>document.hidden\<close> when the event
  fires.  The request's \<^verbatim>\<open>.catch\<close> handler only logs.
\<close>

definition visibilitychange :: "bool \<Rightarrow> page \<Rightarrow> page" where
  "visibilitychange hidden s =
     (if hidden \<and> examRunning s then
        showNotification (JStr ''Warning: Tab switching detected!'') ''error''
          (fetch POST ''http://127.0.0.1:5000/tab_switched'' s)
      else s)"

text \<open>A page as it is loaded: nothing requested, the exam not running.\<close>

definition initial_page :: page where
  "initial_page =
     \<lparr>examRunning = False, requests = [], console = [],
      examStatus = Some \<lparr>status_classes = [''bg-gray-500''], span = Some (JStr ''Not Started'')\<rparr>,
      scoreEl = Some \<lparr>innerText = JStr ''0'', el_classes = [''text-2xl'', ''font-bold'', ''text-white'']\<rparr>,
      alertBox = Some \<lparr>innerText = JStr [], el_classes = []\<rparr>,
      alertSection = Some [''hidden''],
      alertTime = Some \<lparr>innerText = JStr [], el_classes = []\<rparr>,
      body = []\<rparr>"

section \<open>enhanced\_features.js\<close>

text \<open>
  The body of \<^verbatim>\<open>/api/face_recognition/verify_quick\<close>: \<^verbatim>\<open>data.status\<close> and
  \<^verbatim>\<open>data.verification\<close>.  \<open>None\<close> is a verification that is \<^verbatim>\<open>undefined\<close> or
  \<^verbatim>\<open>null\<close>: reading \<^verbatim>\<open>verification.verified\<close> throws then.
\<close>

record verification_data =
  verified :: jsval
  verification_message :: jsval

record verify_data =
  verify_status :: jsval
  verification :: "verification_data option"

text \<open>How a promise settles.\<close>

datatype 'a settled = Resolved 'a | Rejected exn

text \<open>
  \<^verbatim>\<open>verifyFaceBeforeExam()\<close>: the executor shows a toast and issues the request.  The
  handlers below run when the request settles and decide how the returned promise
  settles.
\<close>

definition verifyFaceBeforeExam :: "page \<Rightarrow> page" where
  "verifyFaceBeforeExam s =
     fetch POST ''/api/face_recognition/verify_quick''
       (showNotification (JStr ''Verifying face identity...'') ''info'' s)"

definition verifyFace_catch :: "exn \<Rightarrow> page \<Rightarrow> bool settled \<times> page" where
  "verifyFace_catch err s =
     (Resolved False,
      showNotification (JStr ''Face verification error'') ''error'' (console_error err s))"

definition verifyFace_then :: "verify_data \<Rightarrow> page \<Rightarrow> bool settled \<times> page" where
  "verifyFace_then data s =
     (if verify_status data = JStr ''success'' then
        (case verification data of
           None \<Rightarrow> verifyFace_catch TypeError s
         | Some v \<Rightarrow>
             if truthy (verified v)
             then (Resolved True, showNotification (verification_message v) ''success'' s)
             else (Resolved False, showNotification (verification_message v) ''error'' s))
      else (Resolved False, showNotification (JStr ''Face verification failed'') ''error'' s))"

definition verifyFace_settled :: "verify_data fetched \<Rightarrow> page \<Rightarrow> bool settled \<times> page" where
  "verifyFace_settled r s =
     (case r of
        Failed \<Rightarrow> verifyFace_catch NetworkError s
      | Response _ None \<Rightarrow> verifyFace_catch SyntaxError s
      | Response _ (Some data) \<Rightarrow> verifyFace_then data s)"

text \<open>
  \<^verbatim>\<open>startExamWithVerification()\<close> awaits the promise: \<open>r\<close> is how the verification
  request settles.  A rejected promise would make the \<^verbatim>\<open>await\<close> throw and end the
  function there.
\<close>

definition startExamWithVerification :: "verify_data fetched \<Rightarrow> page \<Rightarrow> page" where
  "startExamWithVerification r s =
     (case verifyFace_settled r (verifyFaceBeforeExam s) of
        (Resolved v, s1) \<Rightarrow>
          if v then startExam s1
          else showNotification (JStr ''Face verification failed. Exam not started.'') ''error'' s1
      | (Rejected e, s1) \<Rightarrow> s1)"

text \<open>
  The body of \<^verbatim>\<open>/api/alerts/statistics\<close>.  \<open>None\<close> is an object that is
  \<^verbatim>\<open>undefined\<close> or \<^verbatim>\<open>null\<close>, so that reading a field of it throws.
\<close>

record severity_counts =
  critical :: jsval
  warning :: jsval
  info :: jsval

record statistics_data =
  total_alerts :: jsval
  by_severity :: "severity_counts option"

record statistics_response =
  statistics_status :: jsval
  statistics :: "statistics_data option"

text \<open>The first element of a list that satisfies \<open>P\<close>, replaced or removed.\<close>

fun update_first :: "('a \<Rightarrow> bool) \<Rightarrow> ('a \<Rightarrow> 'a) \<Rightarrow> 'a list \<Rightarrow> 'a list" where
  "update_first P f [] = []"
| "update_first P f (x # xs) = (if P x then f x # xs else x # update_first P f xs)"

fun remove_first :: "('a \<Rightarrow> bool) \<Rightarrow> 'a list \<Rightarrow> 'a list" where
  "remove_first P [] = []"
| "remove_first P (x # xs) = (if P x then xs else x # remove_first P xs)"

definition is_statsModal :: "node \<Rightarrow> bool" where
  "is_statsModal n = (node_id n = ''statsModal'')"

definition createStatsModal :: node where
  "createStatsModal =
     \<lparr>node_id = ''statsModal'',
      classes = [''fixed'', ''inset-0'', ''bg-black'', ''bg-opacity-50'', ''flex'',
                 ''items-center'', ''justify-center'', ''z-50'', ''hidden''],
      holes = [],
      parts = [(''statsContent'', [])]\<rparr>"

text \<open>
  \<^verbatim>\<open>displayAlertStatistics(stats)\<close>, the same in both copies of the script.  The modal
  is the first element with id \<^verbatim>\<open>statsModal\<close>, created and appended when there is
  none.  When it has a \<^verbatim>\<open>#statsContent\<close>, the template is evaluated (this throws when
  \<^verbatim>\<open>stats\<close> or \<^verbatim>\<open>stats.by_severity\<close> is missing) and becomes its markup; then
  \<^verbatim>\<open>hidden\<close> is removed from the modal.
\<close>

definition show_modal :: "node \<Rightarrow> node" where
  "show_modal n = n\<lparr>classes := classList_remove ''hidden'' (classes n)\<rparr>"

definition set_statsContent :: "jsval list \<Rightarrow> node \<Rightarrow> node" where
  "set_statsContent vs n =
     n\<lparr>parts := update_first (\<lambda>p. fst p = ''statsContent'') (\<lambda>p. (fst p, vs)) (parts n)\<rparr>"

definition displayAlertStatistics :: "statistics_data option \<Rightarrow> page \<Rightarrow> exn option \<times> page" where
  "displayAlertStatistics stats s =
     (let (modal, b1) = (case find is_statsModal (body s) of
                           Some m \<Rightarrow> (m, body s)
                         | None \<Rightarrow> (createStatsModal, body s @ [createStatsModal]));
          s1 = s\<lparr>body := b1\<rparr>
      in (case map_of (parts modal) ''statsContent'' of
            None \<Rightarrow> (None, s1\<lparr>body := update_first is_statsModal show_modal b1\<rparr>)
          | Some _ \<Rightarrow>
              (case stats of
                 None \<Rightarrow> (Some TypeError, s1)
               | Some st \<Rightarrow>
                   (case by_severity st of
                      None \<Rightarrow> (Some TypeError, s1)
                    | Some sev \<Rightarrow>
                        (None,
                         s1\<lparr>body := update_first is_statsModal
                                      (\<lambda>n. show_modal
                                             (set_statsContent
                                                [total_alerts st, critical sev, warning sev,
                                                 info sev] n))
                                      b1\<rparr>)))))"

definition showAlertStats :: "page \<Rightarrow> page" where
  "showAlertStats s = fetch GET ''/api/alerts/statistics'' s"

definition showAlertStats_settled :: "statistics_response fetched \<Rightarrow> page \<Rightarrow> page" where
  "showAlertStats_settled r s =
     (case r of
        Failed \<Rightarrow> console_error NetworkError s
      | Response _ None \<Rightarrow> console_error SyntaxError s
      | Response _ (Some data) \<Rightarrow>
          if statistics_status data = JStr ''success'' then
            (case displayAlertStatistics (statistics data) s of
               (None, s1) \<Rightarrow> s1
             | (Some e, s1) \<Rightarrow> console_error e s1)
          else s)"

section \<open>The calibration wizard\<close>

text \<open>
  The wizard is in the second copy of the script only.  The body of
  \<^verbatim>\<open>/api/calibration/status\<close> carries the step to show; \<^verbatim>\<open>instructions\<close> is an array
  (\<open>None\<close> when the field is missing: calling \<^verbatim>\<open>map\<close> on it throws) and
  \<^verbatim>\<open>current_step_index\<close> a number.
\<close>

record calibration =
  title :: jsval
  description :: jsval
  instructions :: "jsval list option"
  test_type :: jsval
  progress :: jsval
  current_step_index :: real
  total_steps :: jsval

record calibration_status =
  calibration_status_status :: jsval
  calibration_of :: "calibration option"

text \<open>
  The body of \<^verbatim>\<open>/api/calibration/next\<close>: \<^verbatim>\<open>data.status\<close> and \<^verbatim>\<open>data.result.status\<close>
  (\<open>None\<close> when \<^verbatim>\<open>data.result\<close> is \<^verbatim>\<open>undefined\<close> or \<^verbatim>\<open>null\<close>).
\<close>

record next_data =
  next_status :: jsval
  result_status :: "jsval option"

text \<open>
  What \<^verbatim>\<open>document.querySelector('.fixed.inset-0')\<close> matches: an element with both
  classes.  The elements these scripts create with both classes are children of the
  body, and \<^verbatim>\<open>querySelector\<close> returns the first match in document order.  The markup
  of the page itself is taken to have no element with both.
\<close>

definition is_overlay :: "node \<Rightarrow> bool" where
  "is_overlay n = (''fixed'' \<in> set (classes n) \<and> ''inset-0'' \<in> set (classes n))"

definition closeCalibrationModal :: "page \<Rightarrow> page" where
  "closeCalibrationModal s = s\<lparr>body := remove_first is_overlay (body s)\<rparr>"

text \<open>
  The modal \<^verbatim>\<open>showCalibrationModal(calibration)\<close> builds.  Its \<open>holes\<close> are the template's
  interpolations in order: title, description, the instructions, the two blocks and the
  button label that depend on \<^verbatim>\<open>test_type\<close>, \<^verbatim>\<open>progress || 0\<close>,
  \<^verbatim>\<open>current_step_index + 1\<close> and \<^verbatim>\<open>total_steps\<close>.
\<close>

definition calibration_modal :: "calibration \<Rightarrow> jsval list \<Rightarrow> node" where
  "calibration_modal c ins =
     \<lparr>node_id = [],
      classes = [''fixed'', ''inset-0'', ''bg-black'', ''bg-opacity-50'', ''flex'',
                 ''items-center'', ''justify-center'', ''z-50''],
      holes = [title c, description c] @ ins @
              [JBool (truthy (test_type c)), JBool (truthy (test_type c)),
               JStr (if truthy (test_type c) then ''Skip Test'' else ''Next Step''),
               js_or (progress c) (JNum 0), JNum (current_step_index c + 1), total_steps c],
      parts = []\<rparr>"

text \<open>
  \<^verbatim>\<open>showCalibrationModal\<close> appends the new modal and removes nothing; when the template
  throws, nothing has been appended.
\<close>

definition showCalibrationModal :: "calibration \<Rightarrow> page \<Rightarrow> exn option \<times> page" where
  "showCalibrationModal c s =
     (case instructions c of
        None \<Rightarrow> (Some TypeError, s)
      | Some ins \<Rightarrow> (None, s\<lparr>body := body s @ [calibration_modal c ins]\<rparr>))"

definition showCalibrationStep :: "page \<Rightarrow> page" where
  "showCalibrationStep s = fetch GET ''/api/calibration/status'' s"

definition showCalibrationStep_settled :: "calibration_status fetched \<Rightarrow> page \<Rightarrow> page" where
  "showCalibrationStep_settled r s =
     (case r of
        Failed \<Rightarrow> console_error NetworkError s
      | Response _ None \<Rightarrow> console_error SyntaxError s
      | Response _ (Some data) \<Rightarrow>
          if calibration_status_status data = JStr ''success'' then
            (case calibration_of data of
               None \<Rightarrow> console_error TypeError s
             | Some c \<Rightarrow>
                 (case showCalibrationModal c s of
                    (None, s1) \<Rightarrow> s1
                  | (Some e, s1) \<Rightarrow> console_error e s1))
          else s)"

text \<open>
  \<^verbatim>\<open>startCalibrationWizard()\<close>.  The global \<^verbatim>\<open>calibrationStep\<close> it resets to 0 is read
  nowhere and is left out.
\<close>

definition startCalibrationWizard :: "page \<Rightarrow> page" where
  "startCalibrationWizard s =
     fetch POST ''/api/calibration/start''
       (showNotification (JStr ''Starting calibration wizard...'') ''info'' s)"

definition startCalibrationWizard_settled :: "jsval fetched \<Rightarrow> page \<Rightarrow> page" where
  "startCalibrationWizard_settled r s =
     (case r of
        Failed \<Rightarrow>
          showNotification (JStr ''Failed to start calibration'') ''error''
            (console_error NetworkError s)
      | Response _ None \<Rightarrow>
          showNotification (JStr ''Failed to start calibration'') ''error''
            (console_error SyntaxError s)
      | Response _ (Some status) \<Rightarrow>
          if status = JStr ''success'' then showCalibrationStep s else s)"

text \<open>\<^verbatim>\<open>nextCalibrationStep()\<close> and its handlers.\<close>

definition nextCalibrationStep :: "page \<Rightarrow> page" where
  "nextCalibrationStep s = fetch POST ''/api/calibration/next'' s"

definition nextCalibrationStep_catch :: "exn \<Rightarrow> page \<Rightarrow> page" where
  "nextCalibrationStep_catch err s =
     showNotification (JStr ''Failed to proceed to next step'') ''error'' (console_error err s)"

definition nextCalibrationStep_settled :: "next_data fetched \<Rightarrow> page \<Rightarrow> page" where
  "nextCalibrationStep_settled r s =
     (case r of
        Failed \<Rightarrow> nextCalibrationStep_catch NetworkError s
      | Response _ None \<Rightarrow> nextCalibrationStep_catch SyntaxError s
      | Response _ (Some data) \<Rightarrow>
          if next_status data = JStr ''success'' then
            (case result_status data of
               None \<Rightarrow> nextCalibrationStep_catch TypeError s
             | Some st \<Rightarrow>
                 if st = JStr ''completed''
                 then closeCalibrationModal
                        (showNotification (JStr ''Calibration completed successfully!'')
                           ''success'' s)
                 else showCalibrationStep s)
          else s)"

section \<open>The engine behind the endpoints\<close>

text \<open>
  The scripts poll a backend (\<^verbatim>\<open>backend/app.py\<close>, \<^verbatim>\<open>backend/proctoring/\<close>) whose
  files are not among the sources.  The definitions of this section follow the
  specification's description of its components instead.  Scores, weights and times are
  real numbers.
\<close>

text \<open>
  Modelled from the spec: the kinds of detection events and the severities of alerts
  (section 3), declared in the missing backend.
\<close>

datatype event_kind = FaceMissing | MultipleFaces | HeadMovement | BackgroundVoice | TabSwitch

datatype severity = Info | Warning | Critical

text \<open>
  Modelled from the spec: a DetectionEvent (section 3), declared in the missing backend:
  "kind, occurredAt: timestamp, weight: float".
\<close>

record detection_event =
  kind :: event_kind
  occurredAt :: real
  weight :: real

text \<open>
  Modelled from the spec: the state of the ScoreAggregator (section 4.2), whose code is
  missing.  \<open>currentScore\<close> is the score its query returns; \<open>lastTick\<close> is the time
  of the last decay, from which \<^verbatim>\<open>tick(now)\<close> takes the elapsed time.
\<close>

record aggregator =
  currentScore :: real
  lastTick :: real

text \<open>
  Modelled from the spec: \<^verbatim>\<open>applyEvent\<close>, missing from the sources.  "Each accepted
  event adds event.weight to the score, clamped to [0, 100]."
\<close>

definition applyEvent :: "detection_event \<Rightarrow> aggregator \<Rightarrow> aggregator" where
  "applyEvent e a = a\<lparr>currentScore := max 0 (min 100 (currentScore a + weight e))\<rparr>"

text \<open>
  Modelled from the spec: \<^verbatim>\<open>tick\<close>, missing from the sources.  "On each tick, score
  moves toward 0 by a fixed decay rate per elapsed second (e.g. score = max(0, score -
  decayRate * dt))."
\<close>

definition tick :: "real \<Rightarrow> real \<Rightarrow> aggregator \<Rightarrow> aggregator" where
  "tick decayRate now a =
     a\<lparr>currentScore := max 0 (currentScore a - decayRate * (now - lastTick a)),
       lastTick := now\<rparr>"

text \<open>
  What happens to the aggregator while the session runs: an accepted event or a decay
  tick.  \<open>observe\<close> lists, for a sequence of them, each operation with the score before
  and after it: the observation points.  \<open>clock_ok\<close> says that the ticks' times do not
  go backwards.
\<close>

datatype score_op = Accepted detection_event | Tick real

fun score_step :: "real \<Rightarrow> score_op \<Rightarrow> aggregator \<Rightarrow> aggregator" where
  "score_step decayRate (Accepted e) a = applyEvent e a"
| "score_step decayRate (Tick now) a = tick decayRate now a"

fun observe :: "real \<Rightarrow> aggregator \<Rightarrow> score_op list \<Rightarrow> (score_op \<times> real \<times> real) list" where
  "observe decayRate a [] = []"
| "observe decayRate a (p # ps) =
     (p, currentScore a, currentScore (score_step decayRate p a))
       # observe decayRate (score_step decayRate p a) ps"

fun clock_ok :: "real \<Rightarrow> score_op list \<Rightarrow> bool" where
  "clock_ok t [] = True"
| "clock_ok t (Accepted e # ps) = clock_ok t ps"
| "clock_ok t (Tick now # ps) = (t \<le> now \<and> clock_ok now ps)"

text \<open>
  What is required of one observation: the score after it lies within 0 and 100; after
  an accepted event it is the score before plus the weight, clamped; after a tick it is
  not above the score before.
\<close>

fun observation_ok :: "score_op \<times> real \<times> real \<Rightarrow> bool" where
  "observation_ok (Accepted e, before, after) =
     (0 \<le> after \<and> after \<le> 100 \<and> after = max 0 (min 100 (before + weight e)))"
| "observation_ok (Tick now, before, after) =
     (0 \<le> after \<and> after \<le> 100 \<and> after \<le> before)"

text \<open>
  Modelled from the spec: a ViolationCounter and the tracker's mapping from kinds to
  counters (section 3), declared in the missing backend: "count: int, windowStart:
  timestamp".
\<close>

record violation_counter =
  count :: nat
  windowStart :: real

type_synonym tracker = "event_kind \<Rightarrow> violation_counter option"

text \<open>
  Modelled from the spec: \<^verbatim>\<open>recordAndCount\<close> of the ViolationTracker (section 4.3),
  whose code is missing.  "If no event of that kind arrives for windowDuration, the next
  event starts a fresh window with count 1"; otherwise the count goes up by one.  Each
  event of the kind restarts the interval that has to pass without one.  The function
  "returns the post-increment count".
\<close>

definition recordAndCount :: "real \<Rightarrow> detection_event \<Rightarrow> tracker \<Rightarrow> nat \<times> tracker" where
  "recordAndCount windowDuration e tr =
     (let n = (case tr (kind e) of
                 None \<Rightarrow> 1
               | Some c \<Rightarrow>
                   if occurredAt e - windowStart c > windowDuration then 1 else count c + 1)
      in (n, tr(kind e \<mapsto> \<lparr>count = n, windowStart = occurredAt e\<rparr>)))"

text \<open>
  Modelled from the spec: an Alert (section 3), declared in the missing backend: "id:
  monotonic sequence, message, severity, createdAt, sourceKind, acknowledged".
\<close>

record alert_record =
  alert_id :: nat
  alert_message :: string
  alert_severity :: severity
  createdAt :: real
  sourceKind :: event_kind
  acknowledged :: bool

text \<open>
  Modelled from the spec: the base severity of a kind (section 4.4), in the missing
  AlertEngine.  "MultipleFaces -> Critical, FaceMissing, HeadMovement -> Warning,
  BackgroundVoice, TabSwitch -> Warning."
\<close>

fun baseSeverity :: "event_kind \<Rightarrow> severity" where
  "baseSeverity MultipleFaces = Critical"
| "baseSeverity FaceMissing = Warning"
| "baseSeverity HeadMovement = Warning"
| "baseSeverity BackgroundVoice = Warning"
| "baseSeverity TabSwitch = Warning"

text \<open>
  Modelled from the spec: \<^verbatim>\<open>onViolation\<close> of the AlertEngine (section 4.4), whose code is
  missing.  "On the 3rd (and every subsequent) occurrence of the same kind within its
  rolling window, severity is forced to Critical regardless of base tier"; "every call
  produces exactly one new Alert", appended to the alert log.  The spec leaves the
  message texts open: \<open>describe\<close> is a parameter.
\<close>

definition onViolation ::
  "(event_kind \<Rightarrow> string) \<Rightarrow> detection_event \<Rightarrow> nat \<Rightarrow> alert_record list
   \<Rightarrow> alert_record \<times> alert_record list" where
  "onViolation describe e n history =
     (let a = \<lparr>alert_id = length history,
               alert_message = describe (kind e),
               alert_severity = (if 3 \<le> n then Critical else baseSeverity (kind e)),
               createdAt = occurredAt e,
               sourceKind = kind e,
               acknowledged = False\<rparr>
      in (a, history @ [a]))"

text \<open>
  Modelled from the spec: what the missing EventBus does with an accepted event
  (sections 4.1 and 4.3).  The event goes to the tracker and, with the count the tracker
  returns, to the alert engine: "this value is the sole input driving escalation".
\<close>

definition accept ::
  "real \<Rightarrow> (event_kind \<Rightarrow> string) \<Rightarrow> detection_event \<Rightarrow> tracker \<times> alert_record list
   \<Rightarrow> alert_record \<times> tracker \<times> alert_record list" where
  "accept windowDuration describe e st =
     (let (n, tr) = recordAndCount windowDuration e (fst st);
          (a, history) = onViolation describe e n (snd st)
      in (a, tr, history))"

text \<open>The alerts a sequence of accepted events produces, in order.\<close>

fun alerts_of ::
  "real \<Rightarrow> (event_kind \<Rightarrow> string) \<Rightarrow> detection_event list \<Rightarrow> tracker \<times> alert_record list
   \<Rightarrow> alert_record list" where
  "alerts_of windowDuration describe [] st = []"
| "alerts_of windowDuration describe (e # es) st =
     fst (accept windowDuration describe e st)
       # alerts_of windowDuration describe es (snd (accept windowDuration describe e st))"

text \<open>
  The occurrences of one kind in a sequence of events, in order; and two events for
  examples.
\<close>

definition occurrences :: "event_kind \<Rightarrow> detection_event list \<Rightarrow> detection_event list" where
  "occurrences k es = filter (\<lambda>e. kind e = k) es"

definition face_missing_at :: "real \<Rightarrow> detection_event" where
  "face_missing_at t = \<lparr>kind = FaceMissing, occurredAt = t, weight = 10\<rparr>"

definition tab_switch_at :: "real \<Rightarrow> detection_event" where
  "tab_switch_at t = \<lparr>kind = TabSwitch, occurredAt = t, weight = 5\<rparr>"

text \<open>
  Events that stay within one rolling window: none comes more than \<open>windowDuration\<close>
  after the one before it.
\<close>

fun one_window :: "real \<Rightarrow> detection_event list \<Rightarrow> bool" where
  "one_window windowDuration [] = True"
| "one_window windowDuration [e] = True"
| "one_window windowDuration (e # e' # es) =
     (occurredAt e' - occurredAt e \<le> windowDuration \<and> one_window windowDuration (e' # es))"

text \<open>
  Modelled from the spec: the steps of the CalibrationManager (section 4.6), declared in
  the missing backend: "a fixed ordered sequence of calibration steps (camera framing,
  lighting, microphone level, face-registration)".
\<close>

datatype calibration_step = CameraFraming | Lighting | MicrophoneLevel | FaceRegistration

definition calibration_steps :: "calibration_step list" where
  "calibration_steps = [CameraFraming, Lighting, MicrophoneLevel, FaceRegistration]"

text \<open>
  Modelled from the spec: \<^verbatim>\<open>advance\<close> of the CalibrationManager (section 4.6), whose code
  is missing.  From the position of the current step it returns the next step, or
  Completed when there is none: "calling it past the last step repeatedly returns
  Completed without error".
\<close>

datatype advance_result = NextStep calibration_step | Completed

definition advance :: "nat \<Rightarrow> advance_result \<times> nat" where
  "advance current =
     (if Suc current < length calibration_steps
      then (NextStep (calibration_steps ! Suc current), Suc current)
      else (Completed, length calibration_steps))"

text \<open>Whether a request ended in a response whose \<^verbatim>\<open>ok\<close> flag is set.\<close>

fun ok_response :: "'a fetched \<Rightarrow> bool" where
  "ok_response Failed = False"
| "ok_response (Response ok b) = ok"

text \<open>
  The page has no stats modal yet, or the one it has contains \<^verbatim>\<open>#statsContent\<close> (the
  modal \<^verbatim>\<open>createStatsModal\<close> builds does).
\<close>

definition has_statsContent :: "page \<Rightarrow> bool" where
  "has_statsContent s =
     (case find is_statsModal (body s) of
        None \<Rightarrow> True
      | Some m \<Rightarrow> map_of (parts m) ''statsContent'' \<noteq> None)"

text \<open>
  A run of the wizard with two steps, from the loaded page: the wizard is started and
  shows the first step, the user goes on and the second step is shown, the user goes on
  again and the answer is that the calibration is completed.
\<close>

definition wizard_step :: "real \<Rightarrow> calibration" where
  "wizard_step i =
     \<lparr>title = JStr ''Calibration'', description = JStr ''Follow the instructions'',
      instructions = Some [JStr ''Sit in front of the camera''], test_type = JNull,
      progress = JNum (50 * i), current_step_index = i, total_steps = JNum 2\<rparr>"

definition step_shown :: "real \<Rightarrow> calibration_status fetched" where
  "step_shown i =
     Response True (Some \<lparr>calibration_status_status = JStr ''success'',
                          calibration_of = Some (wizard_step i)\<rparr>)"

definition next_answer :: "string \<Rightarrow> next_data fetched" where
  "next_answer st =
     Response True (Some \<lparr>next_status = JStr ''success'', result_status = Some (JStr st)\<rparr>)"

definition wizard_two_steps :: page where
  "wizard_two_steps =
     showCalibrationStep_settled (step_shown 1)
       (nextCalibrationStep_settled (next_answer ''in_progress'')
          (nextCalibrationStep
             (showCalibrationStep_settled (step_shown 0)
                (startCalibrationWizard_settled (Response True (Some (JStr ''success'')))
                   (startCalibrationWizard initial_page)))))"

definition wizard_completed :: page where
  "wizard_completed =
     nextCalibrationStep_settled (next_answer ''completed'')
       (nextCalibrationStep wizard_two_steps)"

section \<open>Stopping and starting the exam\<close>

text \<open>
  C1.  When \<^verbatim>\<open>examRunning\<close> is false, \<^verbatim>\<open>stopExam\<close> reports the error in a toast and
  returns: the result is the state it was called in with that one toast added, so no
  request is issued (in particular no \<^verbatim>\<open>/stop_exam\<close> fetch) and \<^verbatim>\<open>examRunning\<close> and
  the displayed status are what they were.
\<close>

theorem stopExam_not_running:
  assumes "\<not> examRunning s"
  shows "stopExam s =
           s\<lparr>body := body s @
              [notification (JStr ''Cannot stop exam - exam is not started yet!'') ''error'']\<rparr>
         \<and> requests (stopExam s) = requests s
         \<and> examRunning (stopExam s) = examRunning s
         \<and> examStatus (stopExam s) = examStatus s"
  using assms by (simp add: stopExam_def showNotification_def)

theorem stopExam_not_running_witness:
  "\<not> examRunning initial_page
   \<and> requests (stopExam initial_page) = []
   \<and> \<not> examRunning (stopExam initial_page)
   \<and> examStatus (stopExam initial_page) = examStatus initial_page
   \<and> map holes (body (stopExam initial_page)) =
       [[JStr ''Cannot stop exam - exam is not started yet!'']]"
  using stopExam_not_running [of initial_page]
  by (simp add: initial_page_def notification_def)

text \<open>
  C2.  A \<^verbatim>\<open>visibilitychange\<close> event submits \<^verbatim>\<open>POST /tab_switched\<close> exactly when the
  document is hidden and \<^verbatim>\<open>examRunning\<close> is true.  In every other case the listener
  leaves the whole state as it was: nothing is requested, shown or kept for later.
\<close>

theorem visibilitychange_submits_iff:
  "requests (visibilitychange hidden s) =
     (if hidden \<and> examRunning s
      then requests s @ [(POST, ''http://127.0.0.1:5000/tab_switched'')]
      else requests s)
   \<and> (\<not> (hidden \<and> examRunning s) \<longrightarrow> visibilitychange hidden s = s)"
  by (simp add: visibilitychange_def showNotification_def fetch_def)

theorem visibilitychange_submits_iff_witness:
  "visibilitychange True initial_page = initial_page
   \<and> visibilitychange False (initial_page\<lparr>examRunning := True\<rparr>) =
       initial_page\<lparr>examRunning := True\<rparr>
   \<and> requests (visibilitychange True (initial_page\<lparr>examRunning := True\<rparr>)) =
       [(POST, ''http://127.0.0.1:5000/tab_switched'')]"
  using visibilitychange_submits_iff [of True initial_page]
        visibilitychange_submits_iff [of False "initial_page\<lparr>examRunning := True\<rparr>"]
        visibilitychange_submits_iff [of True "initial_page\<lparr>examRunning := True\<rparr>"]
  by (simp add: initial_page_def)

lemma updateExamStatus_frame:
  "updateExamStatus txt color s = (x, s') \<Longrightarrow>
     examRunning s' = examRunning s \<and> requests s' = requests s \<and> body s' = body s
     \<and> console s' = console s"
  by (auto simp: updateExamStatus_def Let_def split: option.splits)

text \<open>
  C5.  When \<^verbatim>\<open>/start_exam\<close> settles, \<^verbatim>\<open>examRunning\<close> becomes true only on a response
  that is ok, and then the status element's span reads "Exam Running".  On a response
  that is not ok and on a network error \<^verbatim>\<open>examRunning\<close>, the status element and the
  requests stay as they were and one error toast is shown, so the user can start again.
\<close>

theorem startExam_settled_running_only_if_ok:
  "(ok_response r \<longrightarrow>
      examRunning (startExam_settled r s)
      \<and> (\<forall>el t. examStatus s = Some el \<and> span el = Some t \<longrightarrow>
            (\<exists>el'. examStatus (startExam_settled r s) = Some el'
                   \<and> span el' = Some (JStr ''Exam Running''))))
   \<and> (\<not> ok_response r \<longrightarrow>
        examRunning (startExam_settled r s) = examRunning s
        \<and> examStatus (startExam_settled r s) = examStatus s
        \<and> requests (startExam_settled r s) = requests s
        \<and> body (startExam_settled r s) =
            body s @ [notification (JStr (if r = Failed then ''Backend not reachable''
                                          else ''Failed to start exam'')) ''error''])"
proof (cases r)
  case Failed
  then show ?thesis
    by (simp add: startExam_settled_def startExam_catch_def console_error_def
        showNotification_def)
next
  case (Response ok b)
  show ?thesis
  proof (cases ok)
    case False
    with Response show ?thesis
      by (simp add: startExam_settled_def startExam_then_def showNotification_def)
  next
    case True
    obtain x s2 where
      u: "updateExamStatus ''Exam Running'' ''green'' (s\<lparr>examRunning := True\<rparr>) = (x, s2)"
      by (cases "updateExamStatus ''Exam Running'' ''green'' (s\<lparr>examRunning := True\<rparr>)")
    from updateExamStatus_frame [OF u] have run: "examRunning s2" by simp
    have st: "\<forall>el t. examStatus s = Some el \<and> span el = Some t \<longrightarrow>
                x = None \<and> (\<exists>el'. examStatus s2 = Some el'
                                  \<and> span el' = Some (JStr ''Exam Running''))"
      using u by (auto simp: updateExamStatus_def Let_def split: option.splits)
    from Response True u run st show ?thesis
      by (cases x) (auto simp: startExam_settled_def startExam_then_def showNotification_def
          startExam_catch_def console_error_def)
  qed
qed

theorem startExam_settled_running_only_if_ok_witness:
  "examRunning (startExam_settled (Response True (None :: unit option)) initial_page)
   \<and> (\<exists>el'. examStatus (startExam_settled (Response True (None :: unit option)) initial_page)
              = Some el' \<and> span el' = Some (JStr ''Exam Running''))
   \<and> \<not> examRunning (startExam_settled (Response False (None :: unit option)) initial_page)
   \<and> \<not> examRunning (startExam_settled (Failed :: unit fetched) initial_page)
   \<and> map holes (body (startExam_settled (Response False (None :: unit option)) initial_page)) =
        [[JStr ''Failed to start exam'']]
   \<and> map holes (body (startExam_settled (Failed :: unit fetched) initial_page)) =
        [[JStr ''Backend not reachable'']]"
  using startExam_settled_running_only_if_ok [of "Response True (None :: unit option)" initial_page]
        startExam_settled_running_only_if_ok [of "Response False (None :: unit option)" initial_page]
        startExam_settled_running_only_if_ok [of "Failed :: unit fetched" initial_page]
  by (simp add: initial_page_def notification_def)

section \<open>The polls\<close>

text \<open>
  C9.  After a score poll the score element shows the new score, and its classes are
  decided by the score alone: the red class from 50 up, the yellow class from 25 up to
  50, the white class below 25.  Neither the state before, the text the element had, nor
  the response's \<^verbatim>\<open>ok\<close> flag plays a part.
\<close>

theorem suspicion_score_color:
  assumes "scoreEl s = Some el"
  shows "\<exists>el'. scoreEl (suspicion_score_settled parseInt (Response ok (Some newScore)) s) = Some el'
           \<and> innerText el' = JNum newScore
           \<and> (50 \<le> newScore \<longrightarrow>
                el_classes el' = [''text-2xl'', ''font-bold'', ''text-red-400''])
           \<and> (25 \<le> newScore \<and> newScore < 50 \<longrightarrow>
                el_classes el' = [''text-2xl'', ''font-bold'', ''text-yellow-400''])
           \<and> (newScore < 25 \<longrightarrow>
                el_classes el' = [''text-2xl'', ''font-bold'', ''text-white''])"
  using assms by (simp add: suspicion_score_settled_def Let_def)

theorem suspicion_score_color_witness:
  "scoreEl initial_page \<noteq> None
   \<and> scoreEl (suspicion_score_settled (\<lambda>v. None) (Response True (Some 60)) initial_page) =
       Some \<lparr>innerText = JNum 60, el_classes = [''text-2xl'', ''font-bold'', ''text-red-400'']\<rparr>
   \<and> scoreEl (suspicion_score_settled (\<lambda>v. None) (Response True (Some 30)) initial_page) =
       Some \<lparr>innerText = JNum 30, el_classes = [''text-2xl'', ''font-bold'', ''text-yellow-400'']\<rparr>
   \<and> scoreEl (suspicion_score_settled (\<lambda>v. None) (Response True (Some 10)) initial_page) =
       Some \<lparr>innerText = JNum 10, el_classes = [''text-2xl'', ''font-bold'', ''text-white'']\<rparr>"
  using suspicion_score_color [of initial_page _ "\<lambda>v. None" True 60]
        suspicion_score_color [of initial_page _ "\<lambda>v. None" True 30]
        suspicion_score_color [of initial_page _ "\<lambda>v. None" True 10]
  by (auto simp: initial_page_def)

text \<open>
  What the alert poll does with any object, on a page that has the alert box and the
  alert section.  The handler takes \<^verbatim>\<open>data.message || data.alert || ""\<close>: \<^verbatim>\<open>alert\<close> is
  a second name under which it accepts the message.
\<close>

lemma latest_alert_settled_shown:
  assumes "alertBox s = Some box" and "alertSection s = Some sec"
  shows "\<exists>sec'. alertSection (latest_alert_settled (Response ok (Some data)) s) = Some sec'
          \<and> (''hidden'' \<in> set sec' \<longleftrightarrow> \<not> truthy (message data) \<and> \<not> truthy (alert data))
          \<and> (truthy (message data) \<or> truthy (alert data) \<longrightarrow>
               alertBox (latest_alert_settled (Response ok (Some data)) s) =
                 Some (box\<lparr>innerText := (if truthy (message data) then message data
                                           else alert data)\<rparr>)
               \<and> (\<forall>t. alertTime s = Some t \<longrightarrow>
                    alertTime (latest_alert_settled (Response ok (Some data)) s) =
                      Some (t\<lparr>innerText := (if truthy (time data) then time data
                                              else JStr [])\<rparr>)))"
  using assms
  by (auto simp: latest_alert_settled_def js_or_def classList_add_def classList_remove_def
      token_set_def Let_def split: option.splits)

text \<open>
  C6.  The response of \<^verbatim>\<open>/latest_alert\<close> is an alert record with \<^verbatim>\<open>message\<close>, level and
  \<^verbatim>\<open>time\<close>, or empty; it has no \<^verbatim>\<open>alert\<close> field.  For every such response, on a page
  that has the alert box and the alert section, the section is hidden after the poll
  exactly when the returned message is empty.  Otherwise the box shows the returned
  message, and the time element, when the page has one, shows the returned time (the
  empty string when the response has none).
\<close>

theorem latest_alert_hidden_iff_message_empty:
  assumes "alertBox s = Some box" and "alertSection s = Some sec"
    and "alert data = JUndefined"
  shows "\<exists>sec'. alertSection (latest_alert_settled (Response ok (Some data)) s) = Some sec'
          \<and> (''hidden'' \<in> set sec' \<longleftrightarrow> \<not> truthy (message data))
          \<and> (truthy (message data) \<longrightarrow>
               alertBox (latest_alert_settled (Response ok (Some data)) s) =
                 Some (box\<lparr>innerText := message data\<rparr>)
               \<and> (\<forall>t. alertTime s = Some t \<longrightarrow>
                    alertTime (latest_alert_settled (Response ok (Some data)) s) =
                      Some (t\<lparr>innerText := (if truthy (time data) then time data
                                              else JStr [])\<rparr>)))"
  using assms
  by (auto simp: latest_alert_settled_def js_or_def classList_add_def classList_remove_def
      token_set_def Let_def split: option.splits)

theorem latest_alert_hidden_iff_message_empty_witness:
  "alertBox initial_page \<noteq> None \<and> alertSection initial_page \<noteq> None
   \<and> alertSection (latest_alert_settled
        (Response True (Some \<lparr>message = JStr [], alert = JUndefined,
                              level = JUndefined, time = JUndefined\<rparr>))
        (initial_page\<lparr>alertSection := Some [''alert-slide'']\<rparr>))
       = Some [''alert-slide'', ''hidden'']
   \<and> alertSection (latest_alert_settled
        (Response True (Some \<lparr>message = JStr ''Face not detected'', alert = JUndefined,
                              level = JStr ''warning'', time = JStr ''10:15:00''\<rparr>)) initial_page)
       = Some [''alert-slide'']
   \<and> alertBox (latest_alert_settled
        (Response True (Some \<lparr>message = JStr ''Face not detected'', alert = JUndefined,
                              level = JStr ''warning'', time = JStr ''10:15:00''\<rparr>)) initial_page)
       = Some \<lparr>innerText = JStr ''Face not detected'', el_classes = []\<rparr>
   \<and> alertTime (latest_alert_settled
        (Response True (Some \<lparr>message = JStr ''Face not detected'', alert = JUndefined,
                              level = JStr ''warning'', time = JStr ''10:15:00''\<rparr>)) initial_page)
       = Some \<lparr>innerText = JStr ''10:15:00'', el_classes = []\<rparr>"
  using latest_alert_hidden_iff_message_empty
          [of "initial_page\<lparr>alertSection := Some [''alert-slide'']\<rparr>" _ _
              "\<lparr>message = JStr [], alert = JUndefined, level = JUndefined,
                time = JUndefined\<rparr>" True]
        latest_alert_hidden_iff_message_empty
          [of initial_page _ _
              "\<lparr>message = JStr ''Face not detected'', alert = JUndefined,
                level = JStr ''warning'', time = JStr ''10:15:00''\<rparr>" True]
  by (auto simp: initial_page_def latest_alert_settled_def js_or_def classList_add_def
      classList_remove_def token_set_def Let_def)

section \<open>The statistics modal\<close>

lemma find_update_first:
  "find P xs = Some x \<Longrightarrow> P (f x) \<Longrightarrow> find P (update_first P f xs) = Some (f x)"
  by (induction xs) (auto split: if_splits)

lemma map_of_update_first:
  "map_of ps k = Some v \<Longrightarrow>
     map_of (update_first (\<lambda>p. fst p = k) (\<lambda>p. (fst p, v')) ps) k = Some v'"
  by (induction ps) (auto split: if_splits)

lemma find_append_new:
  "find P xs = None \<Longrightarrow> P x \<Longrightarrow> find P (xs @ [x]) = Some x"
  by (induction xs) (auto split: if_splits)

lemma find_Some_P: "find P xs = Some x \<Longrightarrow> P x"
  by (induction xs) (auto split: if_splits)

lemma filter_update_first:
  "(\<And>x. P x \<Longrightarrow> P (f x)) \<Longrightarrow>
     filter (\<lambda>x. \<not> P x) (update_first P f xs) = filter (\<lambda>x. \<not> P x) xs"
  by (induction xs) auto

lemma filled_modal:
  assumes m: "find is_statsModal b1 = Some m"
    and c: "map_of (parts m) ''statsContent'' = Some old"
  shows "find is_statsModal
           (update_first is_statsModal (\<lambda>n. show_modal (set_statsContent vs n)) b1) =
         Some (show_modal (set_statsContent vs m))"
    and "map_of (parts (show_modal (set_statsContent vs m))) ''statsContent'' = Some vs"
    and "''hidden'' \<notin> set (classes (show_modal (set_statsContent vs m)))"
proof -
  have "is_statsModal m" by (rule find_Some_P [OF m])
  then have P: "is_statsModal (show_modal (set_statsContent vs m))"
    by (simp add: is_statsModal_def show_modal_def set_statsContent_def)
  show "find is_statsModal
           (update_first is_statsModal (\<lambda>n. show_modal (set_statsContent vs n)) b1) =
         Some (show_modal (set_statsContent vs m))"
    using find_update_first [of is_statsModal b1 m "\<lambda>n. show_modal (set_statsContent vs n)"] m P
    by simp
  show "map_of (parts (show_modal (set_statsContent vs m))) ''statsContent'' = Some vs"
    using map_of_update_first [OF c] by (simp add: show_modal_def set_statsContent_def)
  show "''hidden'' \<notin> set (classes (show_modal (set_statsContent vs m)))"
    by (simp add: show_modal_def set_statsContent_def classList_remove_def)
qed

lemma displayAlertStatistics_eq:
  assumes m: "find is_statsModal b1 = Some m"
    and b1: "b1 = (case find is_statsModal (body s) of Some m \<Rightarrow> body s
                   | None \<Rightarrow> body s @ [createStatsModal])"
    and c: "map_of (parts m) ''statsContent'' = Some old"
    and sev: "by_severity st = Some sev"
  shows "displayAlertStatistics (Some st) s =
           (None, s\<lparr>body := update_first is_statsModal
                      (\<lambda>n. show_modal (set_statsContent
                         [total_alerts st, critical sev, warning sev, info sev] n)) b1\<rparr>)"
proof (cases "find is_statsModal (body s)")
  case None
  with b1 have b: "b1 = body s @ [createStatsModal]" by simp
  have "find is_statsModal (body s @ [createStatsModal]) = Some createStatsModal"
    by (rule find_append_new [OF None]) (simp add: is_statsModal_def createStatsModal_def)
  with m b have "m = createStatsModal" by simp
  with None b c sev show ?thesis
    by (simp add: displayAlertStatistics_def)
next
  case (Some m')
  with b1 have b: "b1 = body s" by simp
  with m Some have "m' = m" by simp
  with Some b c sev show ?thesis
    by (simp add: displayAlertStatistics_def)
qed

text \<open>
  C7.  \<^verbatim>\<open>displayAlertStatistics\<close> renders four values: the content of the stats modal
  becomes the template filled with \<^verbatim>\<open>total_alerts\<close>, \<^verbatim>\<open>by_severity.critical\<close>,
  \<^verbatim>\<open>by_severity.warning\<close> and \<^verbatim>\<open>by_severity.info\<close>, in this order and nothing else of
  the response, and the modal is shown.  Reading the statistics changes nothing else:
  \<^verbatim>\<open>examRunning\<close>, the requests, the console and every other element of the page stay
  as they were.
\<close>

theorem displayAlertStatistics_renders:
  assumes "has_statsContent s" and "by_severity st = Some sev"
  shows "\<exists>s' m. displayAlertStatistics (Some st) s = (None, s')
           \<and> find is_statsModal (body s') = Some m
           \<and> map_of (parts m) ''statsContent'' =
               Some [total_alerts st, critical sev, warning sev, info sev]
           \<and> ''hidden'' \<notin> set (classes m)
           \<and> filter (\<lambda>n. \<not> is_statsModal n) (body s') =
               filter (\<lambda>n. \<not> is_statsModal n) (body s)
           \<and> examRunning s' = examRunning s \<and> requests s' = requests s
           \<and> console s' = console s
           \<and> examStatus s' = examStatus s \<and> scoreEl s' = scoreEl s
           \<and> alertBox s' = alertBox s \<and> alertSection s' = alertSection s
           \<and> alertTime s' = alertTime s"
proof -
  define b1 where "b1 = (case find is_statsModal (body s) of Some m \<Rightarrow> body s
                         | None \<Rightarrow> body s @ [createStatsModal])"
  define vs where "vs = [total_alerts st, critical sev, warning sev, info sev]"
  have "\<exists>m old. find is_statsModal b1 = Some m \<and> map_of (parts m) ''statsContent'' = Some old"
  proof (cases "find is_statsModal (body s)")
    case None
    have "find is_statsModal (body s @ [createStatsModal]) = Some createStatsModal"
      by (rule find_append_new [OF None]) (simp add: is_statsModal_def createStatsModal_def)
    moreover have "map_of (parts createStatsModal) ''statsContent'' = Some []"
      by (simp add: createStatsModal_def)
    ultimately show ?thesis using None by (simp add: b1_def)
  next
    case (Some m)
    with assms(1) show ?thesis by (auto simp: has_statsContent_def b1_def)
  qed
  then obtain m old where m: "find is_statsModal b1 = Some m"
    and c: "map_of (parts m) ''statsContent'' = Some old" by blast
  let ?s' = "s\<lparr>body := update_first is_statsModal (\<lambda>n. show_modal (set_statsContent vs n)) b1\<rparr>"
  have eq: "displayAlertStatistics (Some st) s = (None, ?s')"
    unfolding vs_def by (rule displayAlertStatistics_eq [OF m b1_def c assms(2)])
  have f: "find is_statsModal (body ?s') = Some (show_modal (set_statsContent vs m))"
    using filled_modal(1) [OF m c, of vs] by simp
  have p: "map_of (parts (show_modal (set_statsContent vs m))) ''statsContent'' = Some vs"
    by (rule filled_modal(2) [OF m c])
  have h: "''hidden'' \<notin> set (classes (show_modal (set_statsContent vs m)))"
    by (rule filled_modal(3) [OF m c])
  have "filter (\<lambda>n. \<not> is_statsModal n) b1 = filter (\<lambda>n. \<not> is_statsModal n) (body s)"
    by (simp add: b1_def is_statsModal_def createStatsModal_def split: option.splits)
  moreover have "filter (\<lambda>n. \<not> is_statsModal n) (body ?s') =
                   filter (\<lambda>n. \<not> is_statsModal n) b1"
    using filter_update_first [of is_statsModal "\<lambda>n. show_modal (set_statsContent vs n)" b1]
    by (simp add: is_statsModal_def show_modal_def set_statsContent_def)
  ultimately have rest: "filter (\<lambda>n. \<not> is_statsModal n) (body ?s') =
                           filter (\<lambda>n. \<not> is_statsModal n) (body s)"
    by simp
  show ?thesis
    apply (rule exI [of _ ?s'])
    apply (rule exI [of _ "show_modal (set_statsContent vs m)"])
    using eq f p h rest unfolding vs_def by simp
qed

theorem displayAlertStatistics_renders_witness:
  "has_statsContent initial_page
   \<and> map parts (body (snd (displayAlertStatistics
        (Some \<lparr>total_alerts = JNum 6,
               by_severity = Some \<lparr>critical = JNum 1, warning = JNum 3, info = JNum 2\<rparr>\<rparr>)
        initial_page)))
       = [[(''statsContent'', [JNum 6, JNum 1, JNum 3, JNum 2])]]"
  using displayAlertStatistics_renders [of initial_page
          "\<lparr>total_alerts = JNum 6,
            by_severity = Some \<lparr>critical = JNum 1, warning = JNum 3, info = JNum 2\<rparr>\<rparr>"
          "\<lparr>critical = JNum 1, warning = JNum 3, info = JNum 2\<rparr>"]
  by (simp add: has_statsContent_def initial_page_def displayAlertStatistics_def
      createStatsModal_def is_statsModal_def show_modal_def set_statsContent_def
      classList_remove_def)

section \<open>Face verification before the exam\<close>

text \<open>
  C10.  However the verification request settles, the promise of
  \<^verbatim>\<open>verifyFaceBeforeExam\<close> resolves and never rejects.  It resolves false on a network
  error, on a body that is not JSON, on a status other than "success", and on a
  verification that is missing or not verified.  \<^verbatim>\<open>startExamWithVerification\<close> goes on
  to \<^verbatim>\<open>startExam\<close> when the promise resolved true, and in every other case issues no
  request after the verification request.
\<close>

theorem verifyFace_fails_closed:
  "(\<exists>b. fst (verifyFace_settled r s) = Resolved b)
   \<and> (r = Failed \<longrightarrow> fst (verifyFace_settled r s) = Resolved False)
   \<and> (\<forall>ok. r = Response ok None \<longrightarrow> fst (verifyFace_settled r s) = Resolved False)
   \<and> (\<forall>ok d. r = Response ok (Some d) \<and> verify_status d \<noteq> JStr ''success'' \<longrightarrow>
         fst (verifyFace_settled r s) = Resolved False)
   \<and> (\<forall>ok d. r = Response ok (Some d)
         \<and> (case verification d of None \<Rightarrow> True | Some v \<Rightarrow> \<not> truthy (verified v)) \<longrightarrow>
         fst (verifyFace_settled r s) = Resolved False)
   \<and> (fst (verifyFace_settled r (verifyFaceBeforeExam s)) = Resolved True \<longrightarrow>
         startExamWithVerification r s =
           startExam (snd (verifyFace_settled r (verifyFaceBeforeExam s))))
   \<and> (fst (verifyFace_settled r (verifyFaceBeforeExam s)) \<noteq> Resolved True \<longrightarrow>
         requests (startExamWithVerification r s) = requests (verifyFaceBeforeExam s))"
proof -
  have res: "\<And>t. \<exists>b. fst (verifyFace_settled r t) = Resolved b"
    by (auto simp: verifyFace_settled_def verifyFace_then_def verifyFace_catch_def
        split: fetched.splits option.splits)
  have req: "\<And>t. requests (snd (verifyFace_settled r t)) = requests t"
    by (auto simp: verifyFace_settled_def verifyFace_then_def verifyFace_catch_def
        showNotification_def console_error_def split: fetched.splits option.splits)
  have a: "r = Failed \<longrightarrow> fst (verifyFace_settled r s) = Resolved False"
    by (simp add: verifyFace_settled_def verifyFace_catch_def)
  have b: "\<forall>ok. r = Response ok None \<longrightarrow> fst (verifyFace_settled r s) = Resolved False"
    by (simp add: verifyFace_settled_def verifyFace_catch_def)
  have c: "\<forall>ok d. r = Response ok (Some d) \<and> verify_status d \<noteq> JStr ''success'' \<longrightarrow>
         fst (verifyFace_settled r s) = Resolved False"
    by (simp add: verifyFace_settled_def verifyFace_then_def)
  have d: "\<forall>ok d. r = Response ok (Some d)
         \<and> (case verification d of None \<Rightarrow> True | Some v \<Rightarrow> \<not> truthy (verified v)) \<longrightarrow>
         fst (verifyFace_settled r s) = Resolved False"
    by (auto simp: verifyFace_settled_def verifyFace_then_def verifyFace_catch_def
        split: option.splits)
  obtain p s1 where v: "verifyFace_settled r (verifyFaceBeforeExam s) = (p, s1)"
    by (cases "verifyFace_settled r (verifyFaceBeforeExam s)")
  from res [of "verifyFaceBeforeExam s"] v obtain bb where p: "p = Resolved bb" by auto
  from req [of "verifyFaceBeforeExam s"] v
  have r1: "requests s1 = requests (verifyFaceBeforeExam s)" by simp
  have e: "fst (verifyFace_settled r (verifyFaceBeforeExam s)) = Resolved True \<longrightarrow>
         startExamWithVerification r s =
           startExam (snd (verifyFace_settled r (verifyFaceBeforeExam s)))"
    using v p by (simp add: startExamWithVerification_def)
  have f: "fst (verifyFace_settled r (verifyFaceBeforeExam s)) \<noteq> Resolved True \<longrightarrow>
         requests (startExamWithVerification r s) = requests (verifyFaceBeforeExam s)"
    using v p r1 by (simp add: startExamWithVerification_def showNotification_def)
  from res [of s] a b c d e f show ?thesis by blast
qed

theorem verifyFace_fails_closed_witness:
  "fst (verifyFace_settled Failed initial_page) = Resolved False
   \<and> fst (verifyFace_settled (Response True None) initial_page) = Resolved False
   \<and> fst (verifyFace_settled
        (Response True (Some \<lparr>verify_status = JStr ''error'', verification = None\<rparr>))
        initial_page) = Resolved False
   \<and> fst (verifyFace_settled
        (Response True (Some \<lparr>verify_status = JStr ''success'',
           verification = Some \<lparr>verified = JBool False,
                                 verification_message = JStr ''Face not recognized''\<rparr>\<rparr>))
        initial_page) = Resolved False
   \<and> requests (startExamWithVerification
        (Response True (Some \<lparr>verify_status = JStr ''success'',
           verification = Some \<lparr>verified = JBool True,
                                 verification_message = JStr ''Welcome''\<rparr>\<rparr>))
        initial_page) =
       [(POST, ''/api/face_recognition/verify_quick''),
        (GET, ''http://127.0.0.1:5000/start_exam'')]
   \<and> requests (startExamWithVerification Failed initial_page) =
       [(POST, ''/api/face_recognition/verify_quick'')]"
  using verifyFace_fails_closed [of Failed initial_page]
        verifyFace_fails_closed [of "Response True None" initial_page]
        verifyFace_fails_closed [of "Response True (Some \<lparr>verify_status = JStr ''error'', verification = None\<rparr>)" initial_page]
        verifyFace_fails_closed [of "Response True (Some \<lparr>verify_status = JStr ''success'',
           verification = Some \<lparr>verified = JBool False,
                                 verification_message = JStr ''Face not recognized''\<rparr>\<rparr>)" initial_page]
        verifyFace_fails_closed [of "Response True (Some \<lparr>verify_status = JStr ''success'',
           verification = Some \<lparr>verified = JBool True,
                                 verification_message = JStr ''Welcome''\<rparr>\<rparr>)" initial_page]
  by (simp add: verifyFace_settled_def verifyFace_then_def verifyFace_catch_def
      startExamWithVerification_def verifyFaceBeforeExam_def startExam_def fetch_def
      showNotification_def console_error_def initial_page_def)

section \<open>The end of the calibration wizard\<close>

text \<open>
  In the model of \<^verbatim>\<open>advance\<close> that follows the specification, a call at or past the
  last step returns Completed, and every further call returns Completed again and
  leaves the position where it is.
\<close>

lemma advance_past_last:
  "fst (advance current) = Completed \<Longrightarrow>
     advance (snd (advance current)) = (Completed, snd (advance current))"
  by (simp add: advance_def calibration_steps_def split: if_splits)

lemma advance_reaches_completed:
  "length calibration_steps \<le> Suc current \<Longrightarrow> fst (advance current) = Completed"
  by (simp add: advance_def)

text \<open>
  What \<^verbatim>\<open>nextCalibrationStep\<close> does with a result whose status is "completed": a success
  toast, no error, and \<^verbatim>\<open>closeCalibrationModal\<close>, which removes the first element that
  has the classes \<^verbatim>\<open>fixed\<close> and \<^verbatim>\<open>inset-0\<close>.
\<close>

lemma nextCalibrationStep_completed:
  "nextCalibrationStep_settled (next_answer ''completed'') s =
     s\<lparr>body := remove_first is_overlay
                 (body s @ [notification (JStr ''Calibration completed successfully!'')
                              ''success''])\<rparr>"
  by (simp add: nextCalibrationStep_settled_def next_answer_def closeCalibrationModal_def
      showNotification_def)

lemma wizard_two_steps_body:
  "body wizard_two_steps =
     [notification (JStr ''Starting calibration wizard...'') ''info'',
      calibration_modal (wizard_step 0) [JStr ''Sit in front of the camera''],
      calibration_modal (wizard_step 1) [JStr ''Sit in front of the camera'']]"
  by (simp add: wizard_two_steps_def showCalibrationStep_settled_def step_shown_def
      nextCalibrationStep_settled_def next_answer_def nextCalibrationStep_def
      startCalibrationWizard_settled_def startCalibrationWizard_def showCalibrationStep_def
      showCalibrationModal_def wizard_step_def fetch_def showNotification_def
      initial_page_def)

lemma is_overlay_simps:
  "is_overlay (calibration_modal c ins)" "\<not> is_overlay (notification m t)"
  by (simp_all add: is_overlay_def calibration_modal_def notification_def)

text \<open>
  C8, on the code.  \<^verbatim>\<open>showCalibrationModal\<close> appends a modal for every step and removes
  none, so after two steps the document holds two wizard modals.  On the "completed"
  answer the success toast is shown and \<^verbatim>\<open>closeCalibrationModal\<close> removes the first of
  them only: the modal of the last step is still in the document, and the wizard is
  not closed.
\<close>

theorem wizard_stays_open_when_completed:
  "filter is_overlay (body wizard_two_steps) =
     [calibration_modal (wizard_step 0) [JStr ''Sit in front of the camera''],
      calibration_modal (wizard_step 1) [JStr ''Sit in front of the camera'']]
   \<and> body wizard_completed =
       [notification (JStr ''Starting calibration wizard...'') ''info'',
        calibration_modal (wizard_step 1) [JStr ''Sit in front of the camera''],
        notification (JStr ''Calibration completed successfully!'') ''success'']
   \<and> filter is_overlay (body wizard_completed) \<noteq> []"
  by (simp add: wizard_completed_def nextCalibrationStep_completed nextCalibrationStep_def
      fetch_def wizard_two_steps_body is_overlay_simps)

section \<open>The suspicion score\<close>

lemma applyEvent_range:
  "0 \<le> currentScore (applyEvent e a) \<and> currentScore (applyEvent e a) \<le> 100"
  by (simp add: applyEvent_def)

lemma tick_toward_zero:
  assumes "0 \<le> decayRate" and "lastTick a \<le> now" and "0 \<le> currentScore a"
  shows "0 \<le> currentScore (tick decayRate now a)
         \<and> currentScore (tick decayRate now a) \<le> currentScore a"
proof -
  have "0 \<le> decayRate * (now - lastTick a)"
    using assms(1,2) by (simp add: mult_nonneg_nonneg)
  with assms(3) show ?thesis by (simp add: tick_def)
qed

lemma lastTick_applyEvent [simp]: "lastTick (applyEvent e a) = lastTick a"
  by (simp add: applyEvent_def)

lemma lastTick_tick [simp]: "lastTick (tick decayRate now a) = now"
  by (simp add: tick_def)

text \<open>
  C4.  Take a decay rate that is not negative, a score within 0 and 100, and any sequence
  of accepted events and decay ticks whose times do not go backwards.  Then at every
  observation point the score is within 0 and 100; an accepted event leaves the old
  score plus the event's weight, clamped to that range; and a tick leaves a score that
  is not below 0 and not above the score before it.
\<close>

theorem score_stays_in_range:
  assumes "0 \<le> decayRate"
    and "0 \<le> currentScore a" and "currentScore a \<le> 100"
    and "clock_ok (lastTick a) ps"
  shows "\<forall>obs \<in> set (observe decayRate a ps). observation_ok obs"
  using assms(2-4)
proof (induction ps arbitrary: a)
  case Nil
  show ?case by simp
next
  case (Cons p ps)
  show ?case
  proof (cases p)
    case (Accepted e)
    have r: "0 \<le> currentScore (applyEvent e a) \<and> currentScore (applyEvent e a) \<le> 100"
      by (rule applyEvent_range)
    have here: "observation_ok (p, currentScore a, currentScore (score_step decayRate p a))"
      using Accepted r by (simp add: applyEvent_def)
    have "clock_ok (lastTick (applyEvent e a)) ps"
      using Cons.prems(3) Accepted by simp
    with r have "\<forall>obs \<in> set (observe decayRate (applyEvent e a) ps). observation_ok obs"
      by (intro Cons.IH) simp_all
    with here Accepted show ?thesis by simp
  next
    case (Tick now)
    from Cons.prems(3) Tick have t: "lastTick a \<le> now" and c: "clock_ok now ps" by simp_all
    from tick_toward_zero [OF assms(1) t Cons.prems(1)]
    have r: "0 \<le> currentScore (tick decayRate now a)"
      "currentScore (tick decayRate now a) \<le> currentScore a" by simp_all
    with Cons.prems(2) have r100: "currentScore (tick decayRate now a) \<le> 100" by simp
    have here: "observation_ok (p, currentScore a, currentScore (score_step decayRate p a))"
      using Tick r r100 by simp
    have "\<forall>obs \<in> set (observe decayRate (tick decayRate now a) ps). observation_ok obs"
      using r(1) r100 c by (intro Cons.IH) simp_all
    with here Tick show ?thesis by simp
  qed
qed

theorem score_stays_in_range_witness:
  "(0::real) \<le> 1 / 2
   \<and> clock_ok 0 [Accepted \<lparr>kind = FaceMissing, occurredAt = 1, weight = 60\<rparr>,
                  Accepted \<lparr>kind = TabSwitch, occurredAt = 2, weight = 60\<rparr>,
                  Tick 12, Tick 1000]
   \<and> map (\<lambda>obs. snd (snd obs))
        (observe (1 / 2) \<lparr>currentScore = 0, lastTick = 0\<rparr>
           [Accepted \<lparr>kind = FaceMissing, occurredAt = 1, weight = 60\<rparr>,
            Accepted \<lparr>kind = TabSwitch, occurredAt = 2, weight = 60\<rparr>,
            Tick 12, Tick 1000]) = [60, 100, 94, 0]
   \<and> map observation_ok
        (observe (1 / 2) \<lparr>currentScore = 0, lastTick = 0\<rparr>
           [Accepted \<lparr>kind = FaceMissing, occurredAt = 1, weight = 60\<rparr>,
            Accepted \<lparr>kind = TabSwitch, occurredAt = 2, weight = 60\<rparr>,
            Tick 12, Tick 1000]) = [True, True, True, True]"
  using score_stays_in_range [of "1 / 2" "\<lparr>currentScore = 0, lastTick = 0\<rparr>"
          "[Accepted \<lparr>kind = FaceMissing, occurredAt = 1, weight = 60\<rparr>,
            Accepted \<lparr>kind = TabSwitch, occurredAt = 2, weight = 60\<rparr>,
            Tick 12, Tick 1000]"]
  by (simp add: applyEvent_def tick_def)

section \<open>Escalation\<close>

lemma accept_severity:
  "alert_severity (fst (accept W d e st)) =
     (if 3 \<le> fst (recordAndCount W e (fst st)) then Critical else baseSeverity (kind e))"
  by (simp add: accept_def onViolation_def Let_def split: prod.splits)

lemma accept_tracker:
  "fst (snd (accept W d e st)) = snd (recordAndCount W e (fst st))"
  by (simp add: accept_def onViolation_def Let_def split: prod.splits)

lemma recordAndCount_in_window:
  "tr (kind e) = Some c \<Longrightarrow> occurredAt e - windowStart c \<le> W \<Longrightarrow>
     fst (recordAndCount W e tr) = count c + 1"
  by (simp add: recordAndCount_def Let_def)

lemma recordAndCount_entry:
  "snd (recordAndCount W e tr) (kind e) =
     Some \<lparr>count = fst (recordAndCount W e tr), windowStart = occurredAt e\<rparr>"
  by (simp add: recordAndCount_def Let_def)

lemma recordAndCount_positive: "1 \<le> fst (recordAndCount W e tr)"
  by (simp add: recordAndCount_def Let_def split: option.splits)

lemma recordAndCount_other_kind:
  "kind e \<noteq> k \<Longrightarrow> snd (recordAndCount W e tr) k = tr k"
  by (simp add: recordAndCount_def Let_def)

lemma one_window_tail: "one_window W (e # es) \<Longrightarrow> one_window W es"
  by (cases es) simp_all

lemma one_window_next:
  "one_window W (e # es) \<Longrightarrow> es \<noteq> [] \<Longrightarrow> occurredAt (hd es) - occurredAt e \<le> W"
  by (cases es) simp_all

lemma escalation_from:
  assumes "one_window W (occurrences k es)"
    and "m = 0 \<or> (\<exists>c. fst st k = Some c \<and> m \<le> count c
          \<and> (occurrences k es \<noteq> [] \<longrightarrow>
               occurredAt (hd (occurrences k es)) - windowStart c \<le> W))"
    and "i < length es" and "kind (es ! i) = k"
    and "3 \<le> m + length (occurrences k (take (Suc i) es))"
  shows "alert_severity (alerts_of W d es st ! i) = Critical"
  using assms
proof (induction es arbitrary: st m i)
  case Nil
  then show ?case by simp
next
  case (Cons e es)
  let ?st = "snd (accept W d e st)"
  show ?case
  proof (cases "kind e = k")
    case True
    then have occ: "occurrences k (e # es) = e # occurrences k es"
      by (simp add: occurrences_def)
    have n: "m + 1 \<le> fst (recordAndCount W e (fst st))"
    proof (cases "m = 0")
      case True
      then show ?thesis using recordAndCount_positive [of W e "fst st"] by simp
    next
      case False
      with Cons.prems(2) obtain c where c: "fst st k = Some c" "m \<le> count c"
        "occurredAt (hd (occurrences k (e # es))) - windowStart c \<le> W"
        using occ by auto
      from c(3) occ have "occurredAt e - windowStart c \<le> W" by simp
      with c(1) True have "fst (recordAndCount W e (fst st)) = count c + 1"
        using recordAndCount_in_window [of "fst st" e c W] by simp
      with c(2) show ?thesis by simp
    qed
    show ?thesis
    proof (cases i)
      case 0
      with Cons.prems(5) True have "3 \<le> m + 1" by (simp add: occurrences_def)
      with n have "3 \<le> fst (recordAndCount W e (fst st))" by simp
      with 0 True show ?thesis by (simp add: accept_severity)
    next
      case (Suc j)
      let ?c = "\<lparr>count = fst (recordAndCount W e (fst st)), windowStart = occurredAt e\<rparr>"
      have entry: "fst ?st k = Some ?c"
        using recordAndCount_entry [of W e "fst st"] True by (simp add: accept_tracker)
      have win: "one_window W (occurrences k es)"
        using Cons.prems(1) occ one_window_tail by simp
      have next_in: "occurrences k es \<noteq> [] \<longrightarrow>
                       occurredAt (hd (occurrences k es)) - windowStart ?c \<le> W"
        using Cons.prems(1) occ one_window_next [of W e "occurrences k es"] by simp
      have inv: "m + 1 = 0 \<or> (\<exists>c. fst ?st k = Some c \<and> m + 1 \<le> count c
          \<and> (occurrences k es \<noteq> [] \<longrightarrow>
               occurredAt (hd (occurrences k es)) - windowStart c \<le> W))"
        using entry n next_in by simp
      have j: "j < length es" using Cons.prems(3) Suc by simp
      have kj: "kind (es ! j) = k" using Cons.prems(4) Suc by simp
      have idx: "3 \<le> (m + 1) + length (occurrences k (take (Suc j) es))"
        using Cons.prems(5) Suc True by (simp add: occurrences_def)
      have "alert_severity (alerts_of W d es ?st ! j) = Critical"
        by (rule Cons.IH [OF win inv j kj idx])
      with Suc show ?thesis by simp
    qed
  next
    case False
    then have occ: "occurrences k (e # es) = occurrences k es"
      by (simp add: occurrences_def)
    from False Cons.prems(4) obtain j where Suc: "i = Suc j" by (cases i) auto
    have same: "fst ?st k = fst st k"
      using recordAndCount_other_kind [OF False, of W "fst st"] by (simp add: accept_tracker)
    have win: "one_window W (occurrences k es)" using Cons.prems(1) occ by simp
    have inv: "m = 0 \<or> (\<exists>c. fst ?st k = Some c \<and> m \<le> count c
          \<and> (occurrences k es \<noteq> [] \<longrightarrow>
               occurredAt (hd (occurrences k es)) - windowStart c \<le> W))"
      using Cons.prems(2) occ same by simp
    have j: "j < length es" using Cons.prems(3) Suc by simp
    have kj: "kind (es ! j) = k" using Cons.prems(4) Suc by simp
    have idx: "3 \<le> m + length (occurrences k (take (Suc j) es))"
      using Cons.prems(5) Suc False by (simp add: occurrences_def)
    have "alert_severity (alerts_of W d es ?st ! j) = Critical"
      by (rule Cons.IH [OF win inv j kj idx])
    with Suc show ?thesis by simp
  qed
qed

text \<open>
  C3.  Take any sequence of accepted events, of whatever kinds and in whatever order,
  and any kind; the tracker and the alert log may hold anything before.  When the
  events of that kind stay within its rolling window, the alert for the third of them
  and for every later one has severity Critical, whatever the base severity of the
  kind.
\<close>

theorem third_occurrence_is_critical:
  assumes "one_window W (occurrences k es)"
    and "i < length es" and "kind (es ! i) = k"
    and "3 \<le> length (occurrences k (take (Suc i) es))"
  shows "alert_severity (alerts_of W d es st ! i) = Critical"
  using escalation_from [of W k es 0 st i d] assms by simp

theorem third_occurrence_is_critical_witness:
  "one_window 60 (occurrences FaceMissing
      [face_missing_at 0, tab_switch_at 1, face_missing_at 2, tab_switch_at 3,
       face_missing_at 4, tab_switch_at 5])
   \<and> kind ([face_missing_at 0, tab_switch_at 1, face_missing_at 2, tab_switch_at 3,
            face_missing_at 4, tab_switch_at 5] ! 4) = FaceMissing
   \<and> length (occurrences FaceMissing (take (Suc 4)
        [face_missing_at 0, tab_switch_at 1, face_missing_at 2, tab_switch_at 3,
         face_missing_at 4, tab_switch_at 5])) = 3
   \<and> map alert_severity
        (alerts_of 60 (\<lambda>k. ''violation'')
           [face_missing_at 0, tab_switch_at 1, face_missing_at 2, tab_switch_at 3,
            face_missing_at 4, tab_switch_at 5]
           (Map.empty, []))
       = [Warning, Warning, Warning, Warning, Critical, Critical]"
  using third_occurrence_is_critical [of 60 FaceMissing
          "[face_missing_at 0, tab_switch_at 1, face_missing_at 2, tab_switch_at 3,
            face_missing_at 4, tab_switch_at 5]" 4 "\<lambda>k. ''violation''" "(Map.empty, [])"]
        third_occurrence_is_critical [of 60 TabSwitch
          "[face_missing_at 0, tab_switch_at 1, face_missing_at 2, tab_switch_at 3,
            face_missing_at 4, tab_switch_at 5]" 5 "\<lambda>k. ''violation''" "(Map.empty, [])"]
  by (simp add: occurrences_def face_missing_at_def tab_switch_at_def accept_def
      recordAndCount_def onViolation_def Let_def)

end
